theory Spec2Isabelle
  imports Complex_Main "HOL-Library.Word"
begin

unbundle bit_operations_syntax

section \<open>Data model (sqlqa/models.py, sqlqa/config.py)\<close>

text \<open>
  Python strings are \<open>string\<close>; an \<open>Optional[T]\<close> field is a \<open>T option\<close>.
  Python floats are idealised as real numbers: the functions below only compare, add and
  multiply them. Field names that several classes share carry a prefix, and \<open>id\<close> and
  \<open>type\<close> are written \<open>qid\<close> and \<open>stype\<close>.
\<close>

datatype json =
    JNull
  | JBool bool
  | JInt int
  | JFloat real
  | JStr string
  | JArr "json list"
  | JObj "(string \<times> json) list"

record Query =
  qid :: string
  sql :: string
  raw_sql :: string
  source_path :: string
  lineno :: int
  kind :: string

record StaticFinding =
  rule_id :: string
  severity :: string
  message :: string

record DynamicMetrics =
  p95_ms :: "real option"
  avg_ms :: "real option"
  rows_examined :: "int option"
  using_filesort :: "bool option"
  using_temp_table :: "bool option"
  chosen_key :: "string option"
  plan_json :: "json option"
  plan_hash :: "string option"

record Suggestion =
  suggestion_id :: string
  stype :: string
  title :: string
  description :: string
  sql_before :: "string option"
  sql_after :: "string option"
  ddl :: "string option"
  validated_improvement :: "DynamicMetrics option"

record BaselineEntry =
  bl_p95_ms :: "real option"
  bl_rows_examined :: "int option"
  bl_chosen_key :: "string option"
  bl_plan_hash :: "string option"

record QueryResult =
  query :: Query
  findings :: "StaticFinding list"
  dynamic :: "DynamicMetrics option"
  suggestions :: "Suggestion list"
  baseline_regression :: "string option"

text \<open>\<open>DynamicMetrics()\<close>: every field at its default \<open>None\<close>.\<close>

definition empty_metrics :: DynamicMetrics where
  "empty_metrics =
     \<lparr>p95_ms = None, avg_ms = None, rows_examined = None, using_filesort = None,
      using_temp_table = None, chosen_key = None, plan_json = None, plan_hash = None\<rparr>"

text \<open>Python truthiness of the optional values the code tests with \<open>if x\<close> or \<open>x or y\<close>.\<close>

fun truthy_str :: "string option \<Rightarrow> bool" where
  "truthy_str None = False"
| "truthy_str (Some s) = (s \<noteq> [])"

fun truthy_float :: "real option \<Rightarrow> bool" where
  "truthy_float None = False"
| "truthy_float (Some x) = (x \<noteq> 0)"

fun truthy_int :: "int option \<Rightarrow> bool" where
  "truthy_int None = False"
| "truthy_int (Some n) = (n \<noteq> 0)"

fun truthy_bool :: "bool option \<Rightarrow> bool" where
  "truthy_bool None = False"
| "truthy_bool (Some b) = b"

section \<open>Decision aggregator (sqlqa/reporter.py)\<close>

definition compute_decision :: "QueryResult list \<Rightarrow> string" where
  "compute_decision results =
     (let has_error = list_ex (\<lambda>r. list_ex (\<lambda>f. severity f = ''error'') (findings r)) results;
          has_regression = list_ex (\<lambda>r. truthy_str (baseline_regression r)) results
      in if has_error \<or> has_regression then ''fail'' else ''pass'')"

section \<open>Baseline comparator (sqlqa/baseline.py)\<close>

text \<open>
  \<open>compare_to_baseline\<close> formats its two reasons with Python's \<open>:.2f\<close> and \<open>str\<close> of an
  integer. The float format is a parameter \<open>fmt2f\<close>; integers are printed in decimal.
\<close>

fun digit_char :: "nat \<Rightarrow> char" where
  "digit_char n = char_of (48 + n)"

fun str_nat :: "nat \<Rightarrow> string" where
  "str_nat n = (if n < 10 then [digit_char n] else str_nat (n div 10) @ [digit_char (n mod 10)])"

definition str_int :: "int \<Rightarrow> string" where
  "str_int i = (if i < 0 then CHR ''-'' # str_nat (nat (- i)) else str_nat (nat i))"


section \<open>Parsed statements (the AST provider, sqlglot)\<close>

text \<open>
  The parser is an external capability. A parsed statement is a tree of nodes; a node has
  the key under which it hangs in its parent's \<open>args\<close> (\<open>arg_key\<close>), its class, its
  text (\<open>.name\<close>, which for a literal is its \<open>.this\<close>), its rendering (\<open>.sql()\<close>) and
  its child nodes in argument order. A list-valued argument such as \<open>expressions\<close> is
  a run of children with the same key.
\<close>

datatype node_class =
    Select | Update | Delete | Insert | Table | Column | Literal | Star | Where
  | Or | And | EQ | Like | In | Date | Lower | Upper | Substring | Limit
  | OtherClass string

datatype expr =
  Expr (arg_key: string) (cls: node_class) (node_name: string) (node_sql: string)
       (children: "expr list")

text \<open>\<open>node.args.get(key)\<close> for a single-valued argument, and for a list-valued one.\<close>

definition args_get :: "expr \<Rightarrow> string \<Rightarrow> expr option" where
  "args_get e k = find (\<lambda>c. arg_key c = k) (children e)"

definition args_list :: "expr \<Rightarrow> string \<Rightarrow> expr list" where
  "args_list e k = filter (\<lambda>c. arg_key c = k) (children e)"

text \<open>
  \<open>Expression.walk()\<close> in its default breadth-first order: a queue, the node at its head
  is yielded and its children join the end. \<open>find_all\<close> keeps the nodes of one class,
  the start node included.
\<close>

function bfs :: "expr list \<Rightarrow> expr list" where
  "bfs [] = []"
| "bfs (e # queue) = e # bfs (queue @ children e)"
  by pat_completeness auto
termination
proof (relation "measure (\<lambda>q. sum_list (map size q))")
  show "wf (measure (\<lambda>q. sum_list (map size (q :: expr list))))" by simp
next
  fix e :: expr and queue :: "expr list"
  have le: "sum_list (map size cs) \<le> size_list size cs" for cs :: "expr list"
    by (induction cs) auto
  have "sum_list (map size (children e)) < size e"
    using le [of "children e"] by (cases e) simp
  then show "(queue @ children e, e # queue) \<in> measure (\<lambda>q. sum_list (map size q))"
    by simp
qed

definition walk :: "expr \<Rightarrow> expr list" where
  "walk e = bfs [e]"

definition find_all :: "node_class \<Rightarrow> expr \<Rightarrow> expr list" where
  "find_all c e = filter (\<lambda>n. cls n = c) (walk e)"

section \<open>Python string helpers\<close>

definition lower_char :: "char \<Rightarrow> char" where
  "lower_char c =
     (let n = (of_char c :: nat) in if 65 \<le> n \<and> n \<le> 90 then char_of (n + 32) else c)"

definition lower :: "string \<Rightarrow> string" where
  "lower s = map lower_char s"

fun startswith :: "string \<Rightarrow> string \<Rightarrow> bool" where
  "startswith s [] = True"
| "startswith [] (p # ps) = False"
| "startswith (c # cs) (p # ps) = (c = p \<and> startswith cs ps)"

text \<open>\<open>needle in hay\<close> for strings.\<close>

fun contains :: "string \<Rightarrow> string \<Rightarrow> bool" where
  "contains [] needle = (needle = [])"
| "contains (c # cs) needle = (startswith (c # cs) needle \<or> contains cs needle)"

definition strip_chars :: "string \<Rightarrow> string \<Rightarrow> string" where
  "strip_chars chars s =
     rev (dropWhile (\<lambda>c. c \<in> set chars) (rev (dropWhile (\<lambda>c. c \<in> set chars) s)))"

definition whitespace :: string where
  "whitespace = map char_of [32, 9, 10, 11, 12, 13, 28, 29, 30, 31 :: nat]"

definition strip :: "string \<Rightarrow> string" where
  "strip s = strip_chars whitespace s"

fun join :: "string \<Rightarrow> string list \<Rightarrow> string" where
  "join sep [] = []"
| "join sep [x] = x"
| "join sep (x # y # ys) = x @ sep @ join sep (y # ys)"

section \<open>Policy configuration (sqlqa/config.py)\<close>

record Targets =
  include_paths :: "string list"
  exclude_paths :: "string list"

record StaticRuleSettings =
  forbid_select_star :: bool
  forbid_update_delete_without_where :: bool
  forbid_leading_wildcard_like :: bool
  max_in_list :: int
  require_explicit_columns_in_joins :: bool

record SeverityConfig =
  sev_select_star :: string
  sev_update_delete_without_where :: string
  sev_leading_wildcard_like :: string
  sev_non_sargable_predicate :: string
  sev_long_in_list :: string

record PolicyConfig =
  targets :: Targets
  static_rules :: StaticRuleSettings
  severity_cfg :: SeverityConfig

section \<open>Rule engine (sqlqa/static_rules.py)\<close>

definition rule_select_star :: "Query \<Rightarrow> PolicyConfig \<Rightarrow> expr \<Rightarrow> StaticFinding list" where
  "rule_select_star q config expression =
     (if \<not> forbid_select_star (static_rules config) then []
      else if cls expression \<noteq> Select then []
      else if list_ex (\<lambda>p. cls p = Star) (args_list expression ''expressions'')
      then [\<lparr>rule_id = ''select_star'',
             severity = sev_select_star (severity_cfg config),
             message = ''Query selects all columns with '' @ [CHR 0x27] @ ''*'' @ [CHR 0x27] @ ''.''\<rparr>]
      else [])"

definition rule_update_delete_without_where ::
  "Query \<Rightarrow> PolicyConfig \<Rightarrow> expr \<Rightarrow> StaticFinding list" where
  "rule_update_delete_without_where q config expression =
     (if \<not> forbid_update_delete_without_where (static_rules config) then []
      else if (cls expression = Update \<or> cls expression = Delete)
              \<and> args_get expression ''where'' = None
      then [\<lparr>rule_id = ''update_delete_without_where'',
             severity = sev_update_delete_without_where (severity_cfg config),
             message = ''UPDATE/DELETE statement without WHERE clause.''\<rparr>]
      else [])"

text \<open>\<open>like.args.get("expression") or like.args.get("pattern")\<close>: a node is always truthy.\<close>

definition like_pattern :: "expr \<Rightarrow> expr option" where
  "like_pattern like =
     (case args_get like ''expression'' of
        Some p \<Rightarrow> Some p
      | None \<Rightarrow> args_get like ''pattern'')"

definition quote_chars :: string where
  "quote_chars = [CHR 0x27, CHR 0x22]"

definition rule_leading_wildcard_like ::
  "Query \<Rightarrow> PolicyConfig \<Rightarrow> expr \<Rightarrow> StaticFinding list" where
  "rule_leading_wildcard_like q config expression =
     (if \<not> forbid_leading_wildcard_like (static_rules config) then []
      else concat (map (\<lambda>like.
             case like_pattern like of
               None \<Rightarrow> []
             | Some pattern \<Rightarrow>
                 if startswith (strip_chars quote_chars (strip (node_sql pattern))) ''%''
                 then [\<lparr>rule_id = ''leading_wildcard_like'',
                        severity = sev_leading_wildcard_like (severity_cfg config),
                        message = ''LIKE pattern starts with a wildcard, which is non-sargable.''\<rparr>]
                 else [])
           (find_all Like expression)))"

definition non_sargable_types :: "node_class list" where
  "non_sargable_types = [Lower, Upper, Date, Substring]"

definition rule_non_sargable_predicate ::
  "Query \<Rightarrow> PolicyConfig \<Rightarrow> expr \<Rightarrow> StaticFinding list" where
  "rule_non_sargable_predicate q config expression =
     (case args_get expression ''where'' of
        None \<Rightarrow> []
      | Some where_clause \<Rightarrow>
          if list_ex (\<lambda>node_type.
                list_ex (\<lambda>func. find_all Column func \<noteq> []) (find_all node_type where_clause))
              non_sargable_types
          then [\<lparr>rule_id = ''non_sargable_predicate'',
                 severity = sev_non_sargable_predicate (severity_cfg config),
                 message = ''Non-sargable predicate using a function on a column.''\<rparr>]
          else [])"

definition rule_long_in_list :: "Query \<Rightarrow> PolicyConfig \<Rightarrow> expr \<Rightarrow> StaticFinding list" where
  "rule_long_in_list q config expression =
     (let max_len = max_in_list (static_rules config) in
      concat (map (\<lambda>in_expr.
          let expressions = args_list in_expr ''expressions'' in
          if int (length expressions) > max_len
          then [\<lparr>rule_id = ''long_in_list'',
                 severity = sev_long_in_list (severity_cfg config),
                 message = ''IN list has '' @ str_nat (length expressions) @ '' items (max ''
                           @ str_int max_len @ '').''\<rparr>]
          else [])
        (find_all In expression)))"

definition RULES :: "(Query \<Rightarrow> PolicyConfig \<Rightarrow> expr \<Rightarrow> StaticFinding list) list" where
  "RULES = [rule_select_star, rule_update_delete_without_where, rule_leading_wildcard_like,
            rule_non_sargable_predicate, rule_long_in_list]"

text \<open>
  \<open>sqlglot.parse_one\<close> is the parameter \<open>parse\<close>: \<open>None\<close> when it raises (the statement
  is unparsable), the tree otherwise. The \<open>except\<close> branch of the source sets the
  expression to \<open>None\<close> and the function returns the empty list.
\<close>

definition analyze_query ::
  "(string \<Rightarrow> expr option) \<Rightarrow> Query \<Rightarrow> PolicyConfig \<Rightarrow> StaticFinding list" where
  "analyze_query parse q config =
     (case parse (sql q) of
        None \<Rightarrow> []
      | Some expression \<Rightarrow> concat (map (\<lambda>rule. rule q config expression) RULES))"

definition run_static_checks ::
  "(string \<Rightarrow> expr option) \<Rightarrow> Query list \<Rightarrow> PolicyConfig \<Rightarrow> QueryResult list" where
  "run_static_checks parse queries config =
     map (\<lambda>q. \<lparr>query = q, findings = analyze_query parse q config, dynamic = None,
               suggestions = [], baseline_regression = None\<rparr>) queries"

section \<open>The live database (sqlqa/dynamic_runner.py)\<close>

text \<open>
  The database is an external collaborator. A connection is modelled by what the two
  probes of the dynamic runner yield on it for a query: the metrics they return, or
  \<open>None\<close> when the probe raises.
\<close>

record Connection =
  run_explain_analyze :: "Query \<Rightarrow> DynamicMetrics option"
  run_latency_probe :: "Query \<Rightarrow> nat \<Rightarrow> DynamicMetrics option"

section \<open>Optimizer engine (sqlqa/optimizer.py)\<close>

definition table_name :: "expr \<Rightarrow> string option" where
  "table_name expression =
     (case find_all Table expression of
        [] \<Rightarrow> None
      | t # _ \<Rightarrow> if node_name t \<noteq> [] then Some (node_name t) else None)"

definition where_columns :: "expr \<Rightarrow> string list" where
  "where_columns expression =
     (case args_get expression ''where'' of
        None \<Rightarrow> []
      | Some where_clause \<Rightarrow>
          foldl (\<lambda>cols col.
                   if node_name col \<noteq> [] \<and> node_name col \<notin> set cols
                   then cols @ [node_name col] else cols)
                [] (find_all Column where_clause))"

definition has_offset_limit :: "expr \<Rightarrow> bool" where
  "has_offset_limit expression =
     ((case args_get expression ''limit'' of
         Some limit \<Rightarrow> cls limit = Limit \<and> args_get limit ''offset'' \<noteq> None
       | None \<Rightarrow> False)
      \<or> list_ex (\<lambda>node. args_get node ''offset'' \<noteq> None) (find_all Limit expression))"

text \<open>\<open>comp.left\<close> is \<open>args["this"]\<close> and \<open>comp.right\<close> is \<open>args["expression"]\<close>.\<close>

definition eq_pair :: "expr \<Rightarrow> (string \<times> string) option" where
  "eq_pair eq_expr =
     (case (args_get eq_expr ''this'', args_get eq_expr ''expression'') of
        (Some left, Some right) \<Rightarrow>
           if cls left = Column \<and> cls right = Literal
           then Some (node_sql left, node_name right) else None
      | _ \<Rightarrow> None)"

definition or_eqs :: "expr \<Rightarrow> (string \<times> string) list" where
  "or_eqs expression =
     concat (map (\<lambda>or_expr. List.map_filter eq_pair (find_all EQ or_expr))
                 (find_all Or expression))"

definition or_chain_to_in :: "expr \<Rightarrow> (string \<times> string list) option" where
  "or_chain_to_in expression =
     (case or_eqs expression of
        [] \<Rightarrow> None
      | first # rest \<Rightarrow>
          (let first_col = fst first;
               vals = map snd (filter (\<lambda>(col, v). col = first_col) (first # rest))
           in if length vals \<ge> 3 then Some (first_col, vals) else None))"

definition leading_wildcard_like :: "expr \<Rightarrow> bool" where
  "leading_wildcard_like expression =
     list_ex (\<lambda>like.
        case like_pattern like of
          None \<Rightarrow> False
        | Some pattern \<Rightarrow> startswith (strip_chars quote_chars (node_sql pattern)) ''%'')
       (find_all Like expression)"

text \<open>\<open>(x or 0)\<close> on an optional number.\<close>

definition float_or_zero :: "real option \<Rightarrow> real" where
  "float_or_zero x = (case x of None \<Rightarrow> 0 | Some v \<Rightarrow> if v \<noteq> 0 then v else 0)"

definition int_or_zero :: "int option \<Rightarrow> int" where
  "int_or_zero x = (case x of None \<Rightarrow> 0 | Some v \<Rightarrow> if v \<noteq> 0 then v else 0)"

definition is_slow :: "DynamicMetrics option \<Rightarrow> bool" where
  "is_slow dyn =
     (case dyn of
        None \<Rightarrow> False
      | Some d \<Rightarrow> float_or_zero (p95_ms d) > 500 \<or> int_or_zero (rows_examined d) > 10000
                  \<or> truthy_bool (using_filesort d) \<or> truthy_bool (using_temp_table d))"

definition index_suggestion :: "Query \<Rightarrow> string \<Rightarrow> string list \<Rightarrow> Suggestion" where
  "index_suggestion q table cols =
     \<lparr>suggestion_id = qid q @ ''-idx'',
      stype = ''index_ddl'',
      title = ''Add composite index for WHERE/JOIN columns'',
      description = ''Align index with filtered columns to avoid full scans and temp tables.'',
      sql_before = Some (sql q),
      sql_after = None,
      ddl = Some (''CREATE INDEX idx_'' @ table @ ''_composite ON '' @ table @ '' (''
                  @ join '', '' cols @ '');''),
      validated_improvement = None\<rparr>"

definition date_suggestion :: "Query \<Rightarrow> string \<Rightarrow> Suggestion" where
  "date_suggestion q col_sql =
     \<lparr>suggestion_id = qid q @ ''-date'',
      stype = ''query_rewrite'',
      title = ''Rewrite DATE(column) predicate'',
      description = ''Use a range filter on '' @ col_sql @ '' to stay sargable.'',
      sql_before = Some (sql q),
      sql_after = Some (sql q @ '' -- Suggest range filter instead of DATE(column)''),
      ddl = None,
      validated_improvement = None\<rparr>"

definition offset_suggestion :: "Query \<Rightarrow> Suggestion" where
  "offset_suggestion q =
     \<lparr>suggestion_id = qid q @ ''-offset'',
      stype = ''query_rewrite'',
      title = ''Replace OFFSET pagination with keyset'',
      description = ''Use keyset pagination to avoid scanning skipped rows.'',
      sql_before = Some (sql q),
      sql_after = Some (sql q @ '' -- Apply keyset pagination using last seen id''),
      ddl = None,
      validated_improvement = None\<rparr>"

definition in_suggestion :: "Query \<Rightarrow> string \<Rightarrow> string list \<Rightarrow> Suggestion" where
  "in_suggestion q col vals =
     \<lparr>suggestion_id = qid q @ ''-in'',
      stype = ''query_rewrite'',
      title = ''Convert OR chain to IN'',
      description = ''Use IN list on '' @ col @ '' to simplify predicates and aid indexing.'',
      sql_before = Some (sql q),
      sql_after = Some (sql q @ '' -- Consider '' @ col @ '' IN ('' @ join '', '' vals @ '')''),
      ddl = None,
      validated_improvement = None\<rparr>"

definition fulltext_suggestion :: "Query \<Rightarrow> Suggestion" where
  "fulltext_suggestion q =
     \<lparr>suggestion_id = qid q @ ''-fulltext'',
      stype = ''query_rewrite'',
      title = ''Replace leading wildcard LIKE'',
      description = ''Consider FULLTEXT index or inverted index for prefix/suffix searches.'',
      sql_before = Some (sql q),
      sql_after = Some (sql q @ '' -- Consider FULLTEXT index''),
      ddl = None,
      validated_improvement = None\<rparr>"

text \<open>The first \<open>DATE(...)\<close> call whose argument is a column: the loop with its \<open>break\<close>.\<close>

definition first_date_column :: "expr \<Rightarrow> string option" where
  "first_date_column expression =
     (case List.map_filter
             (\<lambda>func. case args_get func ''this'' of
                        Some this \<Rightarrow> if cls this = Column then Some (node_sql this) else None
                      | None \<Rightarrow> None)
             (find_all Date expression) of
        [] \<Rightarrow> None
      | col_sql # _ \<Rightarrow> Some col_sql)"

text \<open>
  Validation of one suggestion against the connection: a plan for the rewritten text,
  \<open>None\<close> when the probe raises; suggestions without rewritten text are left alone.
\<close>

definition validate_suggestion :: "Connection \<Rightarrow> Query \<Rightarrow> Suggestion \<Rightarrow> Suggestion" where
  "validate_suggestion conn q s =
     (case sql_after s of
        None \<Rightarrow> s
      | Some after \<Rightarrow>
          if after = [] then s
          else s\<lparr>validated_improvement :=
                   run_explain_analyze conn
                     \<lparr>qid = suggestion_id s, sql = after, raw_sql = after,
                      source_path = source_path q, lineno = lineno q, kind = kind q\<rparr>\<rparr>)"

definition optimize_query ::
  "(string \<Rightarrow> expr option) \<Rightarrow> Query \<Rightarrow> DynamicMetrics option \<Rightarrow> Connection option
     \<Rightarrow> Suggestion list" where
  "optimize_query parse q dyn conn =
     (case parse (sql q) of
        None \<Rightarrow> []
      | Some expression \<Rightarrow>
          (let table = table_name expression;
               cols = where_columns expression;
               slow = is_slow dyn;
               s1 = (case table of
                       Some t \<Rightarrow> if cols \<noteq> [] \<and> slow then [index_suggestion q t cols] else []
                     | None \<Rightarrow> []);
               s2 = (case first_date_column expression of
                       Some col_sql \<Rightarrow> [date_suggestion q col_sql]
                     | None \<Rightarrow> []);
               has_offset = (has_offset_limit expression \<or> contains (lower (sql q)) '' offset '');
               s3 = (if has_offset then [offset_suggestion q] else []);
               s4 = (case or_chain_to_in expression of
                       Some (col, vals) \<Rightarrow> [in_suggestion q col vals]
                     | None \<Rightarrow> []);
               s5 = (if leading_wildcard_like expression then [fulltext_suggestion q] else []);
               suggestions = s1 @ s2 @ s3 @ s4 @ s5
           in case conn of
                None \<Rightarrow> suggestions
              | Some c \<Rightarrow> map (validate_suggestion c q) suggestions))"

section \<open>SHA-1 (hashlib.sha1, FIPS 180-4)\<close>

text \<open>
  A string stands for its UTF-8 bytes, so \<open>encode("utf-8")\<close> is the identity on it.
\<close>

type_synonym w32 = "32 word"

text \<open>The \<open>k\<close> low bytes of \<open>n\<close>, most significant first.\<close>

fun be_bytes :: "nat \<Rightarrow> nat \<Rightarrow> nat list" where
  "be_bytes 0 n = []"
| "be_bytes (Suc k) n = be_bytes k (n div 256) @ [n mod 256]"

definition sha1_pad :: "nat list \<Rightarrow> nat list" where
  "sha1_pad msg =
     msg @ [128] @ replicate ((119 - length msg mod 64) mod 64) 0 @ be_bytes 8 (8 * length msg)"

fun be_words :: "nat list \<Rightarrow> w32 list" where
  "be_words (a # b # c # d # rest) =
     word_of_nat (((a * 256 + b) * 256 + c) * 256 + d) # be_words rest"
| "be_words _ = []"

primrec sha1_schedule :: "nat \<Rightarrow> w32 list \<Rightarrow> w32 list" where
  "sha1_schedule 0 w = w"
| "sha1_schedule (Suc n) w =
     sha1_schedule n
       (w @ [word_rotl 1 (w ! (length w - 3) XOR w ! (length w - 8)
                          XOR w ! (length w - 14) XOR w ! (length w - 16))])"

definition sha1_f :: "nat \<Rightarrow> w32 \<Rightarrow> w32 \<Rightarrow> w32 \<Rightarrow> w32" where
  "sha1_f i b c d =
     (if i < 20 then (b AND c) OR (NOT b AND d)
      else if i < 40 then b XOR c XOR d
      else if i < 60 then (b AND c) OR (b AND d) OR (c AND d)
      else b XOR c XOR d)"

definition sha1_k :: "nat \<Rightarrow> w32" where
  "sha1_k i =
     (if i < 20 then 0x5A827999
      else if i < 40 then 0x6ED9EBA1
      else if i < 60 then 0x8F1BBCDC
      else 0xCA62C1D6)"

type_synonym sha1_state = "w32 \<times> w32 \<times> w32 \<times> w32 \<times> w32"

definition sha1_round :: "w32 list \<Rightarrow> sha1_state \<Rightarrow> nat \<Rightarrow> sha1_state" where
  "sha1_round w st i =
     (case st of (a, b, c, d, e) \<Rightarrow>
        (word_rotl 5 a + sha1_f i b c d + e + sha1_k i + w ! i, a, word_rotl 30 b, c, d))"

definition sha1_compress :: "sha1_state \<Rightarrow> nat list \<Rightarrow> sha1_state" where
  "sha1_compress h block =
     (let w = sha1_schedule 64 (be_words block) in
      case (h, foldl (sha1_round w) h [0..<80]) of
        ((h0, h1, h2, h3, h4), (a, b, c, d, e)) \<Rightarrow> (h0 + a, h1 + b, h2 + c, h3 + d, h4 + e))"

function sha1_blocks :: "sha1_state \<Rightarrow> nat list \<Rightarrow> sha1_state" where
  "sha1_blocks h bs =
     (if length bs < 64 then h else sha1_blocks (sha1_compress h (take 64 bs)) (drop 64 bs))"
  by pat_completeness auto
termination
  by (relation "measure (\<lambda>(h, bs). length bs)") auto

definition sha1_init :: sha1_state where
  "sha1_init = (0x67452301, 0xEFCDAB89, 0x98BADCFE, 0x10325476, 0xC3D2E1F0)"

definition hex_digit :: "nat \<Rightarrow> char" where
  "hex_digit n = (if n < 10 then char_of (48 + n) else char_of (87 + n))"

fun hex_nat :: "nat \<Rightarrow> nat \<Rightarrow> string" where
  "hex_nat 0 n = []"
| "hex_nat (Suc k) n = hex_nat k (n div 16) @ [hex_digit (n mod 16)]"

definition hex_word :: "w32 \<Rightarrow> string" where
  "hex_word w = hex_nat 8 (unat w)"

definition sha1_hexdigest :: "string \<Rightarrow> string" where
  "sha1_hexdigest s =
     (case sha1_blocks sha1_init (sha1_pad (map of_char s)) of
        (h0, h1, h2, h3, h4) \<Rightarrow> hex_word h0 @ hex_word h1 @ hex_word h2 @ hex_word h3 @ hex_word h4)"

section \<open>Baseline store (sqlqa/baseline.py)\<close>

definition fingerprint_query :: "Query \<Rightarrow> string" where
  "fingerprint_query q = sha1_hexdigest (sql q)"

definition build_baseline_entry :: "DynamicMetrics \<Rightarrow> BaselineEntry" where
  "build_baseline_entry metrics =
     \<lparr>bl_p95_ms = p95_ms metrics, bl_rows_examined = rows_examined metrics,
      bl_chosen_key = chosen_key metrics, bl_plan_hash = plan_hash metrics\<rparr>"



datatype py_exception = JSONDecodeError | AttributeError | TypeError | ValidationError
  | ConnectError












section \<open>Pipeline stages (sqlqa/graph.py)\<close>

record GraphState =
  gs_config :: "PolicyConfig option"
  gs_queries :: "Query list option"
  gs_results :: "QueryResult list option"
  gs_decision :: "string option"
  gs_report_md :: "string option"
  gs_baseline :: "(string \<times> BaselineEntry) list option"

text \<open>\<open>a or b\<close> on optional floats: \<open>a\<close> when it is truthy, else \<open>b\<close>.\<close>

definition float_or :: "real option \<Rightarrow> real option \<Rightarrow> real option" where
  "float_or a b = (if truthy_float a then a else b)"

definition merge_metrics :: "DynamicMetrics \<Rightarrow> DynamicMetrics \<Rightarrow> DynamicMetrics" where
  "merge_metrics plan_metrics latency_metrics =
     \<lparr>p95_ms = float_or (p95_ms latency_metrics) (p95_ms plan_metrics),
      avg_ms = float_or (avg_ms latency_metrics) (avg_ms plan_metrics),
      rows_examined = rows_examined plan_metrics,
      using_filesort = using_filesort plan_metrics,
      using_temp_table = using_temp_table plan_metrics,
      chosen_key = chosen_key plan_metrics,
      plan_json = plan_json plan_metrics,
      plan_hash = plan_hash plan_metrics\<rparr>"

text \<open>The body of the loop of \<open>dynamic_checks_node\<close> for one result.\<close>

definition dynamic_check :: "Connection \<Rightarrow> QueryResult \<Rightarrow> QueryResult" where
  "dynamic_check conn res =
     (let plan_metrics = (case run_explain_analyze conn (query res) of
                            None \<Rightarrow> empty_metrics | Some m \<Rightarrow> m);
          latency_metrics = (case run_latency_probe conn (query res) 3 of
                               None \<Rightarrow> empty_metrics | Some m \<Rightarrow> m)
      in res\<lparr>dynamic := Some (merge_metrics plan_metrics latency_metrics)\<rparr>)"

text \<open>
  \<open>connect\<close> is \<open>_connect_mysql\<close>: the connection, or the exception it raises, which
  the stage does not catch. A stage returns the state with its update merged in.
\<close>

definition dynamic_checks_node ::
  "(string \<Rightarrow> py_exception + Connection) \<Rightarrow> string option \<Rightarrow> GraphState
     \<Rightarrow> py_exception + GraphState" where
  "dynamic_checks_node connect dsn state =
     (case dsn of
        None \<Rightarrow> Inr state
      | Some d \<Rightarrow>
          if d = [] then Inr state
          else (case connect d of
                  Inl e \<Rightarrow> Inl e
                | Inr conn \<Rightarrow>
                    Inr (state\<lparr>gs_results :=
                           Some (map (dynamic_check conn)
                                     (case gs_results state of None \<Rightarrow> [] | Some rs \<Rightarrow> rs))\<rparr>)))"

section \<open>Sample inputs\<close>

definition sample_query :: Query where
  "sample_query = \<lparr>qid = ''q1'', sql = ''SELECT 1'', raw_sql = ''SELECT 1'',
                    source_path = ''x.sql'', lineno = 1, kind = ''select''\<rparr>"

definition warning_finding :: StaticFinding where
  "warning_finding = \<lparr>rule_id = ''select_star'', severity = ''warning'',
                       message = ''Query selects all columns.''\<rparr>"

definition error_finding :: StaticFinding where
  "error_finding = \<lparr>rule_id = ''update_delete_without_where'', severity = ''error'',
                     message = ''UPDATE/DELETE statement without WHERE clause.''\<rparr>"

definition result_of :: "StaticFinding list \<Rightarrow> string option \<Rightarrow> QueryResult" where
  "result_of fs reg = \<lparr>query = sample_query, findings = fs, dynamic = None,
                        suggestions = [], baseline_regression = reg\<rparr>"


definition default_config :: PolicyConfig where
  "default_config =
     \<lparr>targets = \<lparr>include_paths = [''**/*.py'', ''**/*.sql''],
                 exclude_paths = [''tests/**'', ''migrations/**'']\<rparr>,
      static_rules = \<lparr>forbid_select_star = True, forbid_update_delete_without_where = True,
                      forbid_leading_wildcard_like = True, max_in_list = 100,
                      require_explicit_columns_in_joins = True\<rparr>,
      severity_cfg = \<lparr>sev_select_star = ''warning'', sev_update_delete_without_where = ''error'',
                      sev_leading_wildcard_like = ''warning'',
                      sev_non_sargable_predicate = ''warning'', sev_long_in_list = ''info''\<rparr>\<rparr>"

text \<open>A connection on which both probes raise, and one whose latency probe measures zero.\<close>

definition failing_conn :: Connection where
  "failing_conn = \<lparr>run_explain_analyze = (\<lambda>q. None), run_latency_probe = (\<lambda>q runs. None)\<rparr>"


definition state_of :: "QueryResult list \<Rightarrow> GraphState" where
  "state_of rs = \<lparr>gs_config = None, gs_queries = None, gs_results = Some rs,
                   gs_decision = None, gs_report_md = None, gs_baseline = None\<rparr>"

section \<open>Sample statements\<close>

text \<open>
  Parse trees of three statements, built as the parser builds them: a statement node with
  its projection, its tables (the first under \<open>from\<close>, the others under \<open>joins\<close>),
  its \<open>where\<close> clause and further clauses. \<open>sample_parse\<close> is a parser that knows
  these three statements and raises on any other text.
\<close>

definition identifier_node :: "string \<Rightarrow> expr" where
  "identifier_node nm = Expr ''this'' (OtherClass ''Identifier'') nm nm []"

definition column_node :: "string \<Rightarrow> string \<Rightarrow> expr" where
  "column_node key nm = Expr key Column nm nm [identifier_node nm]"

definition literal_node :: "string \<Rightarrow> string \<Rightarrow> expr" where
  "literal_node key v = Expr key Literal v v []"

definition table_node :: "string \<Rightarrow> string \<Rightarrow> expr" where
  "table_node key nm = Expr key Table nm nm [identifier_node nm]"

definition eq_node :: "string \<Rightarrow> string \<Rightarrow> string \<Rightarrow> expr" where
  "eq_node key c v =
     Expr key EQ [] (c @ '' = '' @ v) [column_node ''this'' c, literal_node ''expression'' v]"

definition or_node :: "string \<Rightarrow> expr \<Rightarrow> expr \<Rightarrow> expr" where
  "or_node key l r = Expr key Or [] (node_sql l @ '' OR '' @ node_sql r) [l, r]"

definition select_from_where :: "string \<Rightarrow> expr list \<Rightarrow> expr \<Rightarrow> expr list \<Rightarrow> expr" where
  "select_from_where text tables cond rest =
     Expr [] Select [] text
       ([Expr ''expressions'' Star [] ''*'' [],
         Expr ''from'' (OtherClass ''From'') [] [] (take 1 tables)]
        @ map (\<lambda>t. Expr ''joins'' (OtherClass ''Join'') [] [] [t]) (drop 1 tables)
        @ [Expr ''where'' Where [] (''WHERE '' @ node_sql cond) [cond]] @ rest)"

definition users_or_sql :: string where
  "users_or_sql = ''SELECT * FROM users WHERE id = 1 OR id = 2 OR id = 3 ORDER BY created_at LIMIT 10 OFFSET 20''"

definition users_or_tree :: expr where
  "users_or_tree =
     select_from_where users_or_sql [table_node ''this'' ''users'']
       (or_node ''this'' (or_node ''this'' (eq_node ''this'' ''id'' ''1'')
                                           (eq_node ''expression'' ''id'' ''2''))
                         (eq_node ''expression'' ''id'' ''3''))
       [Expr ''order'' (OtherClass ''Order'') [] ''ORDER BY created_at''
          [Expr ''expressions'' (OtherClass ''Ordered'') [] ''created_at''
             [column_node ''this'' ''created_at'']],
        Expr ''limit'' Limit [] ''LIMIT 10'' [literal_node ''expression'' ''10''],
        Expr ''offset'' (OtherClass ''Offset'') [] ''OFFSET 20'' [literal_node ''expression'' ''20'']]"

definition slow_metrics :: DynamicMetrics where
  "slow_metrics = empty_metrics\<lparr>p95_ms := Some 800, rows_examined := Some 20000,
                                 using_filesort := Some True, using_temp_table := Some True\<rparr>"

definition late_chain_sql :: string where
  "late_chain_sql = ''SELECT * FROM t WHERE b = 1 OR b = 2 OR b = 3 OR a = 1''"

definition late_chain_tree :: expr where
  "late_chain_tree =
     select_from_where late_chain_sql [table_node ''this'' ''t'']
       (or_node ''this''
          (or_node ''this'' (or_node ''this'' (eq_node ''this'' ''b'' ''1'')
                                              (eq_node ''expression'' ''b'' ''2''))
                            (eq_node ''expression'' ''b'' ''3''))
          (eq_node ''expression'' ''a'' ''1''))
       []"

definition join_sql :: string where
  "join_sql = ''SELECT * FROM users, orders WHERE status = 1''"

definition join_tree :: expr where
  "join_tree =
     select_from_where join_sql [table_node ''this'' ''users'', table_node ''this'' ''orders'']
       (eq_node ''this'' ''status'' ''1'') []"

definition query_of :: "string \<Rightarrow> Query" where
  "query_of text = \<lparr>qid = ''q1'', sql = text, raw_sql = text,
                     source_path = ''x.sql'', lineno = 1, kind = ''select''\<rparr>"

definition sample_parse :: "string \<Rightarrow> expr option" where
  "sample_parse text =
     (if text = users_or_sql then Some users_or_tree
      else if text = late_chain_sql then Some late_chain_tree
      else if text = join_sql then Some join_tree
      else None)"

definition connect_ok :: "string \<Rightarrow> py_exception + Connection" where
  "connect_ok d = Inr failing_conn"

section \<open>Two claims in the spec's words\<close>

text \<open>
  The spec's condition for the OR-to-IN suggestion: some OR chain (an \<open>Or\<close> node with
  what lies below it) contains three or more equality comparisons of one column against
  literals. The spec's condition on tables for the index suggestion: the statement
  references a single table.
\<close>

definition spec_or_chain_qualifies :: "expr \<Rightarrow> bool" where
  "spec_or_chain_qualifies expression =
     list_ex (\<lambda>or_expr.
        let pairs = List.map_filter eq_pair (find_all EQ or_expr)
        in list_ex (\<lambda>p. length (filter (\<lambda>p'. fst p' = fst p) pairs) \<ge> 3) pairs)
       (find_all Or expression)"

definition spec_single_table :: "expr \<Rightarrow> bool" where
  "spec_single_table expression =
     (length (remdups (map node_name (find_all Table expression))) = 1)"

section \<open>The decision\<close>

text \<open>
  Claim C1. For every list of query results, the decision is \<open>fail\<close> if and only if some
  finding of some result has severity \<open>error\<close> or some result carries a non-empty
  regression reason; otherwise it is \<open>pass\<close>.
\<close>

theorem compute_decision_fail_iff:
  "compute_decision results =
     (if (\<exists>r \<in> set results. \<exists>f \<in> set (findings r). severity f = ''error'')
         \<or> (\<exists>r \<in> set results. \<exists>reason. baseline_regression r = Some reason \<and> reason \<noteq> [])
      then ''fail'' else ''pass'')"
proof -
  have reg: "truthy_str x \<longleftrightarrow> (\<exists>reason. x = Some reason \<and> reason \<noteq> [])" for x
    by (cases x) auto
  show ?thesis
    unfolding compute_decision_def Let_def list_ex_iff reg by simp
qed

theorem compute_decision_fail_iff_witness:
  "compute_decision [result_of [warning_finding] None, result_of [error_finding] None] = ''fail''
   \<and> compute_decision [result_of [] (Some ''p95_ms regression'')] = ''fail''
   \<and> compute_decision [result_of [warning_finding] (Some [])] = ''pass''"
  using compute_decision_fail_iff
          [of "[result_of [warning_finding] None, result_of [error_finding] None]"]
        compute_decision_fail_iff [of "[result_of [] (Some ''p95_ms regression'')]"]
        compute_decision_fail_iff [of "[result_of [warning_finding] (Some [])]"]
  by (simp add: result_of_def warning_finding_def error_finding_def)

section \<open>Comparison with the baseline\<close>



section \<open>Unparsable statements\<close>

text \<open>
  Claim C6. For every query whose SQL fails to parse (the parser raises), the rule engine
  returns the empty finding list and the optimizer returns the empty suggestion list;
  both are values, no error reaches the caller.
\<close>

theorem parse_failure_is_silent:
  "parse (sql q) = None \<Longrightarrow>
     analyze_query parse q config = [] \<and> optimize_query parse q dyn conn = []"
  by (simp add: analyze_query_def optimize_query_def)

theorem parse_failure_is_silent_witness:
  "analyze_query (\<lambda>text. None) sample_query default_config = []
   \<and> optimize_query (\<lambda>text. None) sample_query (Some empty_metrics) (Some failing_conn) = []"
  using parse_failure_is_silent
          [of "\<lambda>text. None" sample_query default_config "Some empty_metrics" "Some failing_conn"]
  by simp

section \<open>Fingerprints\<close>

text \<open>
  Claim C7. Two queries with the same normalized SQL text have the same fingerprint,
  whatever their ids, source paths, line numbers and kinds.
\<close>

theorem fingerprint_depends_on_sql_only:
  "sql q1 = sql q2 \<Longrightarrow> fingerprint_query q1 = fingerprint_query q2"
  by (simp add: fingerprint_query_def)

theorem fingerprint_depends_on_sql_only_witness:
  "fingerprint_query sample_query =
   fingerprint_query (sample_query\<lparr>qid := ''app/db.py:7'', raw_sql := ''select  1'',
                                   source_path := ''app/db.py'', lineno := 99, kind := ''other''\<rparr>)"
  using fingerprint_depends_on_sql_only
          [of sample_query
              "sample_query\<lparr>qid := ''app/db.py:7'', raw_sql := ''select  1'',
                            source_path := ''app/db.py'', lineno := 99, kind := ''other''\<rparr>"]
  by simp

section \<open>Saving and loading the baseline\<close>





section \<open>Evaluation of the sample statements\<close>

lemma users_or_eval:
  "table_name users_or_tree = Some ''users''"
  "where_columns users_or_tree = [''id'']"
  "first_date_column users_or_tree = None"
  "has_offset_limit users_or_tree = False"
  "contains (lower users_or_sql) '' offset ''"
  "or_chain_to_in users_or_tree = Some (''id'', [''3'', ''1'', ''2'', ''1'', ''2''])"
  "leading_wildcard_like users_or_tree = False"
  by code_simp+

lemma late_chain_eval:
  "table_name late_chain_tree = Some ''t''"
  "where_columns late_chain_tree = [''a'', ''b'']"
  "first_date_column late_chain_tree = None"
  "has_offset_limit late_chain_tree = False"
  "contains (lower late_chain_sql) '' offset '' = False"
  "or_chain_to_in late_chain_tree = None"
  "leading_wildcard_like late_chain_tree = False"
  by code_simp+

lemma join_eval:
  "table_name join_tree = Some ''users''"
  "where_columns join_tree = [''status'']"
  "first_date_column join_tree = None"
  "has_offset_limit join_tree = False"
  "contains (lower join_sql) '' offset '' = False"
  "or_chain_to_in join_tree = None"
  "leading_wildcard_like join_tree = False"
  by code_simp+

lemma slow_metrics_slow: "is_slow (Some slow_metrics)"
  by (simp add: is_slow_def slow_metrics_def empty_metrics_def float_or_zero_def int_or_zero_def)

lemma sample_parse_eval:
  "sample_parse users_or_sql = Some users_or_tree"
  "sample_parse late_chain_sql = Some late_chain_tree"
  "sample_parse join_sql = Some join_tree"
  by (simp_all add: sample_parse_def users_or_sql_def late_chain_sql_def join_sql_def)

section \<open>Suggestion identifiers\<close>

lemma validate_suggestion_id:
  "suggestion_id (validate_suggestion c q s) = suggestion_id s"
  by (simp add: validate_suggestion_def split: option.splits)

lemma optimize_query_tags:
  assumes "parse (sql q) = Some e"
  shows "map suggestion_id (optimize_query parse q dyn conn) =
           map (\<lambda>tag. qid q @ tag)
             ((if table_name e \<noteq> None \<and> where_columns e \<noteq> [] \<and> is_slow dyn
               then [''-idx''] else [])
              @ (if first_date_column e \<noteq> None then [''-date''] else [])
              @ (if has_offset_limit e \<or> contains (lower (sql q)) '' offset ''
                 then [''-offset''] else [])
              @ (if or_chain_to_in e \<noteq> None then [''-in''] else [])
              @ (if leading_wildcard_like e then [''-fulltext''] else []))"
proof -
  define s1 where "s1 = (case table_name e of
                       Some t \<Rightarrow> if where_columns e \<noteq> [] \<and> is_slow dyn
                                 then [index_suggestion q t (where_columns e)] else []
                     | None \<Rightarrow> [])"
  define s2 where "s2 = (case first_date_column e of
                       Some col_sql \<Rightarrow> [date_suggestion q col_sql]
                     | None \<Rightarrow> [])"
  define s3 where "s3 = (if has_offset_limit e \<or> contains (lower (sql q)) '' offset ''
                         then [offset_suggestion q] else [])"
  define s4 where "s4 = (case or_chain_to_in e of
                       Some (col, vals) \<Rightarrow> [in_suggestion q col vals]
                     | None \<Rightarrow> [])"
  define s5 where "s5 = (if leading_wildcard_like e then [fulltext_suggestion q] else [])"
  have m1: "map suggestion_id s1 = map (\<lambda>tag. qid q @ tag)
              (if table_name e \<noteq> None \<and> where_columns e \<noteq> [] \<and> is_slow dyn
               then [''-idx''] else [])"
    by (simp add: s1_def index_suggestion_def split: option.splits)
  have m2: "map suggestion_id s2 = map (\<lambda>tag. qid q @ tag)
              (if first_date_column e \<noteq> None then [''-date''] else [])"
    by (simp add: s2_def date_suggestion_def split: option.splits)
  have m3: "map suggestion_id s3 = map (\<lambda>tag. qid q @ tag)
              (if has_offset_limit e \<or> contains (lower (sql q)) '' offset ''
               then [''-offset''] else [])"
    by (simp add: s3_def offset_suggestion_def)
  have m4: "map suggestion_id s4 = map (\<lambda>tag. qid q @ tag)
              (if or_chain_to_in e \<noteq> None then [''-in''] else [])"
    by (simp add: s4_def in_suggestion_def split: option.splits prod.splits)
  have m5: "map suggestion_id s5 = map (\<lambda>tag. qid q @ tag)
              (if leading_wildcard_like e then [''-fulltext''] else [])"
    by (simp add: s5_def fulltext_suggestion_def)
  have "map suggestion_id (optimize_query parse q dyn conn)
          = map suggestion_id (s1 @ s2 @ s3 @ s4 @ s5)"
    unfolding optimize_query_def assms Let_def s1_def s2_def s3_def s4_def s5_def
    by (cases conn) (simp_all add: comp_def validate_suggestion_id del: map_append)
  also have "\<dots> = map suggestion_id s1 @ map suggestion_id s2 @ map suggestion_id s3
                    @ map suggestion_id s4 @ map suggestion_id s5"
    by simp
  finally show ?thesis
    unfolding m1 m2 m3 m4 m5 by (simp only: map_append)
qed

text \<open>
  Claim C9. For every query, metrics and connection, the suggestions the optimizer
  produces for one query have pairwise distinct identifiers, each being the query id
  followed by one of the five heuristic tags.
\<close>

theorem suggestion_ids_distinct:
  "distinct (map suggestion_id (optimize_query parse q dyn conn))
   \<and> (\<forall>s \<in> set (optimize_query parse q dyn conn).
         \<exists>tag \<in> {''-idx'', ''-date'', ''-offset'', ''-in'', ''-fulltext''}.
            suggestion_id s = qid q @ tag)"
proof (cases "parse (sql q)")
  case None
  then show ?thesis by (simp add: optimize_query_def)
next
  case (Some e)
  define tags where "tags =
      (if table_name e \<noteq> None \<and> where_columns e \<noteq> [] \<and> is_slow dyn
       then [''-idx''] else [])
      @ (if first_date_column e \<noteq> None then [''-date''] else [])
      @ (if has_offset_limit e \<or> contains (lower (sql q)) '' offset ''
         then [''-offset''] else [])
      @ (if or_chain_to_in e \<noteq> None then [''-in''] else [])
      @ (if leading_wildcard_like e then [''-fulltext''] else [])"
  have ids': "map suggestion_id (optimize_query parse q dyn conn) = map (\<lambda>tag. qid q @ tag) tags"
    using optimize_query_tags [of parse q e dyn conn] Some by (simp only: tags_def)
  have d: "distinct tags"
    unfolding tags_def by (simp split: if_splits)
  have sub: "set tags \<subseteq> {''-idx'', ''-date'', ''-offset'', ''-in'', ''-fulltext''}"
    unfolding tags_def by (auto split: if_splits)
  have "inj_on (\<lambda>tag. qid q @ tag) (set tags)"
    by (rule inj_onI) simp
  with d have dist: "distinct (map suggestion_id (optimize_query parse q dyn conn))"
    unfolding ids' by (simp add: distinct_map)
  have "\<exists>tag \<in> {''-idx'', ''-date'', ''-offset'', ''-in'', ''-fulltext''}.
            suggestion_id s = qid q @ tag"
    if "s \<in> set (optimize_query parse q dyn conn)" for s
  proof -
    from that have "suggestion_id s \<in> set (map suggestion_id (optimize_query parse q dyn conn))"
      by simp
    then have "suggestion_id s \<in> (\<lambda>tag. qid q @ tag) ` set tags"
      unfolding ids' by simp
    then obtain tag where "tag \<in> set tags" "suggestion_id s = qid q @ tag" by blast
    with sub show ?thesis by blast
  qed
  with dist show ?thesis by blast
qed

theorem suggestion_ids_distinct_witness:
  "map suggestion_id (optimize_query sample_parse (query_of users_or_sql) (Some slow_metrics) None)
     = [''q1-idx'', ''q1-offset'', ''q1-in'']"
  using suggestion_ids_distinct [of sample_parse "query_of users_or_sql" "Some slow_metrics" None]
  by (simp add: users_or_eval optimize_query_def sample_parse_eval slow_metrics_slow
        index_suggestion_def offset_suggestion_def in_suggestion_def query_of_def)

section \<open>The dynamic-checks stage\<close>

text \<open>
  Claim C10. When the dynamic-checks stage runs with a database configured (a non-empty
  DSN on which the connection opens), it returns a state in which every query result
  carries metrics; a result whose two probes both raised carries the empty metrics.
\<close>

theorem dynamic_checks_attach_metrics:
  assumes "dsn = Some d" and "d \<noteq> []" and "connect d = Inr conn"
  shows "\<exists>state'. dynamic_checks_node connect dsn state = Inr state'
           \<and> (\<exists>rs. gs_results state' = Some rs
                 \<and> length rs = length (case gs_results state of None \<Rightarrow> [] | Some old \<Rightarrow> old)
                 \<and> (\<forall>r \<in> set rs. dynamic r \<noteq> None)
                 \<and> (\<forall>r \<in> set rs. run_explain_analyze conn (query r) = None
                        \<and> run_latency_probe conn (query r) 3 = None
                        \<longrightarrow> dynamic r = Some empty_metrics))"
proof -
  have q: "query (dynamic_check conn r) = query r" for r
    by (simp add: dynamic_check_def Let_def)
  have d: "dynamic (dynamic_check conn r) \<noteq> None" for r
    by (simp add: dynamic_check_def Let_def)
  have e: "run_explain_analyze conn (query r) = None \<Longrightarrow>
           run_latency_probe conn (query r) 3 = None \<Longrightarrow>
           dynamic (dynamic_check conn r) = Some empty_metrics" for r
    by (simp add: dynamic_check_def Let_def merge_metrics_def empty_metrics_def float_or_def)
  show ?thesis
    using assms q d e by (auto simp: dynamic_checks_node_def)
qed

theorem dynamic_checks_attach_metrics_witness:
  "dynamic_checks_node connect_ok (Some ''mysql://db'') (state_of [result_of [] None])
     = Inr (state_of [(result_of [] None)\<lparr>dynamic := Some empty_metrics\<rparr>])"
  using dynamic_checks_attach_metrics
          [of "Some ''mysql://db''" "''mysql://db''" connect_ok failing_conn
              "state_of [result_of [] None]"]
  by (simp add: dynamic_checks_node_def connect_ok_def state_of_def failing_conn_def
        dynamic_check_def merge_metrics_def empty_metrics_def float_or_def result_of_def)

section \<open>Merging the metrics\<close>


section \<open>The OR-to-IN detector\<close>

lemma filter_concat_length:
  "x \<in> set xs \<Longrightarrow> length (filter P (f x)) \<le> length (filter P (concat (map f xs)))"
  by (induction xs) auto

lemma or_eqs_mem:
  "p \<in> set (or_eqs e) \<Longrightarrow>
     \<exists>or_expr \<in> set (find_all Or e). \<exists>eq_expr \<in> set (find_all EQ or_expr). eq_pair eq_expr = Some p"
  by (fastforce simp: or_eqs_def List.map_filter_def)

lemma or_chain_to_in_cases:
  "or_chain_to_in e =
     (case or_eqs e of
        [] \<Rightarrow> None
      | first # rest \<Rightarrow>
          if 3 \<le> length (filter (\<lambda>p. fst p = fst first) (or_eqs e))
          then Some (fst first, map snd (filter (\<lambda>p. fst p = fst first) (or_eqs e)))
          else None)"
  by (simp add: or_chain_to_in_def case_prod_unfold Let_def split: list.splits)

lemma or_chain_to_in_shape:
  "(or_eqs e = [] \<longrightarrow> or_chain_to_in e = None)
   \<and> (\<forall>first rest. or_eqs e = first # rest
         \<and> (\<exists>or_expr \<in> set (find_all Or e).
               3 \<le> length (filter (\<lambda>p. fst p = fst first)
                              (List.map_filter eq_pair (find_all EQ or_expr))))
         \<longrightarrow> (\<exists>vals. or_chain_to_in e = Some (fst first, vals)))
   \<and> (\<forall>col vals. or_chain_to_in e = Some (col, vals)
         \<longrightarrow> (\<exists>v rest. or_eqs e = (col, v) # rest) \<and> 3 \<le> length vals
             \<and> (\<forall>v \<in> set vals. \<exists>or_expr \<in> set (find_all Or e).
                    \<exists>eq_expr \<in> set (find_all EQ or_expr). eq_pair eq_expr = Some (col, v)))"
proof (intro conjI allI impI)
  assume "or_eqs e = []"
  then show "or_chain_to_in e = None" by (simp add: or_chain_to_in_cases)
next
  fix first rest
  assume a: "or_eqs e = first # rest
         \<and> (\<exists>or_expr \<in> set (find_all Or e).
               3 \<le> length (filter (\<lambda>p. fst p = fst first)
                              (List.map_filter eq_pair (find_all EQ or_expr))))"
  then obtain or_expr where o: "or_expr \<in> set (find_all Or e)"
    and three: "3 \<le> length (filter (\<lambda>p. fst p = fst first)
                              (List.map_filter eq_pair (find_all EQ or_expr)))"
    by blast
  have "length (filter (\<lambda>p. fst p = fst first) (List.map_filter eq_pair (find_all EQ or_expr)))
          \<le> length (filter (\<lambda>p. fst p = fst first) (or_eqs e))"
    unfolding or_eqs_def by (rule filter_concat_length [OF o])
  with three have "3 \<le> length (filter (\<lambda>p. fst p = fst first) (or_eqs e))" by simp
  then have "or_chain_to_in e
               = Some (fst first, map snd (filter (\<lambda>p. fst p = fst first) (or_eqs e)))"
    using a by (subst or_chain_to_in_cases) (simp del: filter.simps)
  then show "\<exists>vals. or_chain_to_in e = Some (fst first, vals)" by blast
next
  fix col vals
  assume s: "or_chain_to_in e = Some (col, vals)"
  then obtain first rest where fr: "or_eqs e = first # rest"
    by (cases "or_eqs e") (simp_all add: or_chain_to_in_cases)
  from s have "(if 3 \<le> length (filter (\<lambda>p. fst p = fst first) (or_eqs e))
          then Some (fst first, map snd (filter (\<lambda>p. fst p = fst first) (or_eqs e)))
          else None) = Some (col, vals)"
    by (subst (asm) or_chain_to_in_cases) (simp add: fr del: filter.simps)
  then have col: "col = fst first"
    and vals: "vals = map snd (filter (\<lambda>p. fst p = fst first) (or_eqs e))"
    and len: "3 \<le> length vals"
    by (auto split: if_splits simp del: filter.simps)
  show "\<exists>v rest. or_eqs e = (col, v) # rest"
    using fr col by (cases first) auto
  show "3 \<le> length vals" by (rule len)
  show "\<forall>v \<in> set vals. \<exists>or_expr \<in> set (find_all Or e).
                    \<exists>eq_expr \<in> set (find_all EQ or_expr). eq_pair eq_expr = Some (col, v)"
  proof
    fix v assume "v \<in> set vals"
    then have "(col, v) \<in> set (or_eqs e)"
      unfolding vals col by auto
    then show "\<exists>or_expr \<in> set (find_all Or e).
                    \<exists>eq_expr \<in> set (find_all EQ or_expr). eq_pair eq_expr = Some (col, v)"
      by (rule or_eqs_mem)
  qed
qed

lemma in_suggestion_emitted_iff:
  assumes "parse (sql q) = Some e"
  shows "qid q @ ''-in'' \<in> set (map suggestion_id (optimize_query parse q dyn conn))
           \<longleftrightarrow> or_chain_to_in e \<noteq> None"
  using optimize_query_tags [of parse q e dyn conn] assms by (auto split: if_splits)

text \<open>
  Claim C3 says that the suggestion is emitted exactly when some OR chain contains three
  or more equality comparisons of one column against literals. In
  \<open>b = 1 OR b = 2 OR b = 3 OR a = 1\<close> the chain has three such comparisons on \<open>b\<close>, but
  the first comparison the detector finds is \<open>a = 1\<close>, only \<open>a\<close> is counted, and nothing
  is emitted.
\<close>

theorem or_to_in_late_chain_counterexample:
  "spec_or_chain_qualifies late_chain_tree
   \<and> or_chain_to_in late_chain_tree = None
   \<and> optimize_query sample_parse (query_of late_chain_sql) None None = []"
proof -
  have "spec_or_chain_qualifies late_chain_tree" by code_simp
  then show ?thesis
    by (simp add: late_chain_eval optimize_query_def sample_parse_eval is_slow_def query_of_def)
qed

text \<open>
  Claim C3, amended. The comparisons the detector collects are the equalities with a
  column on the left and a literal on the right that lie below an \<open>Or\<close> node; the column
  of the first one collected is the first-found column. The suggestion (identifier: query
  id and \<open>-in\<close>) is emitted exactly when the detector returns a column and a list. The
  detector returns nothing when nothing is collected; it returns the first-found column
  whenever some \<open>Or\<close> node has three or more comparisons of that column below it; and
  whatever it returns is the first-found column with a list of at least three entries,
  each a literal compared with that column below an \<open>Or\<close> node.
\<close>

theorem or_to_in_first_found_column:
  assumes "parse (sql q) = Some e"
  shows "(qid q @ ''-in'' \<in> set (map suggestion_id (optimize_query parse q dyn conn))
            \<longleftrightarrow> or_chain_to_in e \<noteq> None)
   \<and> ((or_eqs e = [] \<longrightarrow> or_chain_to_in e = None)
   \<and> (\<forall>first rest. or_eqs e = first # rest
         \<and> (\<exists>or_expr \<in> set (find_all Or e).
               3 \<le> length (filter (\<lambda>p. fst p = fst first)
                              (List.map_filter eq_pair (find_all EQ or_expr))))
         \<longrightarrow> (\<exists>vals. or_chain_to_in e = Some (fst first, vals)))
   \<and> (\<forall>col vals. or_chain_to_in e = Some (col, vals)
         \<longrightarrow> (\<exists>v rest. or_eqs e = (col, v) # rest) \<and> 3 \<le> length vals
             \<and> (\<forall>v \<in> set vals. \<exists>or_expr \<in> set (find_all Or e).
                    \<exists>eq_expr \<in> set (find_all EQ or_expr). eq_pair eq_expr = Some (col, v))))"
proof -
  have emitted: "qid q @ ''-in'' \<in> set (map suggestion_id (optimize_query parse q dyn conn))
            \<longleftrightarrow> or_chain_to_in e \<noteq> None"
    using in_suggestion_emitted_iff [of parse q e dyn conn] assms by simp
  show ?thesis
    by (rule conjI [OF emitted or_chain_to_in_shape [of e]])
qed

theorem or_to_in_first_found_column_witness:
  "or_chain_to_in users_or_tree \<noteq> None
   \<and> fst (the (or_chain_to_in users_or_tree)) = ''id''
   \<and> ''q1-in'' \<in> set (map suggestion_id
                         (optimize_query sample_parse (query_of users_or_sql) None None))"
  using or_to_in_first_found_column
          [of sample_parse "query_of users_or_sql" users_or_tree None None]
  by (simp add: users_or_eval sample_parse_eval query_of_def)

section \<open>The index suggestion\<close>

lemma is_slow_iff:
  "is_slow dyn \<longleftrightarrow>
     (\<exists>d. dyn = Some d
        \<and> ((\<exists>x. p95_ms d = Some x \<and> x > 500) \<or> (\<exists>n. rows_examined d = Some n \<and> n > 10000)
           \<or> using_filesort d = Some True \<or> using_temp_table d = Some True))"
proof (cases dyn)
  case None
  then show ?thesis by (simp add: is_slow_def)
next
  case (Some d)
  have b: "truthy_bool x \<longleftrightarrow> x = Some True" for x by (cases x) auto
  have f: "float_or_zero x > 500 \<longleftrightarrow> (\<exists>v. x = Some v \<and> v > 500)" for x
    by (cases x) (auto simp: float_or_zero_def)
  have i: "int_or_zero x > 10000 \<longleftrightarrow> (\<exists>v. x = Some v \<and> v > 10000)" for x
    by (cases x) (auto simp: int_or_zero_def)
  show ?thesis by (simp add: is_slow_def Some b f i)
qed

lemma dedupe_fold:
  "foldl (\<lambda>cols n. if n \<noteq> [] \<and> n \<notin> set cols then cols @ [n] else cols) [] names
     = rev (remdups (rev (filter (\<lambda>n. n \<noteq> []) names)))"
proof (induction names rule: rev_induct)
  case Nil
  then show ?case by simp
next
  case (snoc x xs)
  then show ?case by auto
qed

lemma where_columns_eq:
  "where_columns e =
     (case args_get e ''where'' of
        None \<Rightarrow> []
      | Some w \<Rightarrow> rev (remdups (rev (filter (\<lambda>n. n \<noteq> []) (map node_name (find_all Column w))))))"
proof -
  have "foldl (\<lambda>cols col. if node_name col \<noteq> [] \<and> node_name col \<notin> set cols
                           then cols @ [node_name col] else cols) [] nodes
        = foldl (\<lambda>cols n. if n \<noteq> [] \<and> n \<notin> set cols then cols @ [n] else cols) []
            (map node_name nodes)" for nodes :: "expr list"
    by (simp add: foldl_map)
  then show ?thesis
    by (simp add: where_columns_def dedupe_fold split: option.splits)
qed

lemma validate_index_suggestion:
  "validate_suggestion c q (index_suggestion q t cols) = index_suggestion q t cols"
  by (simp add: validate_suggestion_def index_suggestion_def)

lemma validate_suggestion_stype:
  "stype (validate_suggestion c q s) = stype s"
  by (simp add: validate_suggestion_def split: option.splits)

lemma index_suggestions_of_optimize_query:
  assumes "parse (sql q) = Some e"
  shows "filter (\<lambda>s. stype s = ''index_ddl'') (optimize_query parse q dyn conn) =
           (case table_name e of
              Some t \<Rightarrow> if where_columns e \<noteq> [] \<and> is_slow dyn
                        then [index_suggestion q t (where_columns e)] else []
            | None \<Rightarrow> [])"
proof -
  have t: "stype (index_suggestion q t cols) = ''index_ddl''" for t cols
    by (simp add: index_suggestion_def)
  have r: "stype (date_suggestion q c) \<noteq> ''index_ddl''" "stype (offset_suggestion q) \<noteq> ''index_ddl''"
          "stype (in_suggestion q c vs) \<noteq> ''index_ddl''" "stype (fulltext_suggestion q) \<noteq> ''index_ddl''"
    for c vs
    by (simp_all add: date_suggestion_def offset_suggestion_def in_suggestion_def
          fulltext_suggestion_def)
  show ?thesis
  proof (cases conn)
    case None
    then show ?thesis
      unfolding optimize_query_def assms Let_def
      by (simp add: t r split: option.splits prod.splits)
  next
    case (Some c)
    then show ?thesis
      unfolding optimize_query_def assms Let_def
      by (simp add: t r validate_index_suggestion validate_suggestion_stype
            split: option.splits prod.splits)
  qed
qed

text \<open>
  Claim C5 says that the index suggestion needs a statement that references a single
  table. \<open>SELECT * FROM users, orders WHERE status = 1\<close> references two; under slow
  metrics the suggestion is emitted all the same, for the first table found.
\<close>

theorem index_suggestion_two_tables_counterexample:
  "\<not> spec_single_table join_tree
   \<and> map stype (optimize_query sample_parse (query_of join_sql) (Some slow_metrics) None)
       = [''index_ddl'']
   \<and> map ddl (optimize_query sample_parse (query_of join_sql) (Some slow_metrics) None)
       = [Some ''CREATE INDEX idx_users_composite ON users (status);'']"
proof -
  have "\<not> spec_single_table join_tree" by code_simp
  then show ?thesis
    by (simp add: join_eval optimize_query_def sample_parse_eval slow_metrics_slow
          index_suggestion_def query_of_def)
qed

text \<open>
  Claim C5, amended. For every parsed query, an \<open>index_ddl\<close> suggestion is emitted exactly
  when the slow flag holds (p95 above 500, or rows examined above 10000, or the filesort
  flag set, or the temp-table flag set; an absent metric or absent metrics never
  contribute), the first table found in the statement has a non-empty name, and the
  WHERE clause holds at least one column with a non-empty name. Its DDL is
  \<open>CREATE INDEX idx_T_composite ON T (cols);\<close> where \<open>T\<close> is that first table and \<open>cols\<close>
  are the distinct non-empty names of the WHERE clause's columns in order of first
  discovery, separated by a comma and a space.
\<close>

theorem index_suggestion_iff:
  assumes "parse (sql q) = Some e"
  shows "((\<exists>s \<in> set (optimize_query parse q dyn conn). stype s = ''index_ddl'') \<longleftrightarrow>
            (\<exists>d. dyn = Some d
               \<and> ((\<exists>x. p95_ms d = Some x \<and> x > 500) \<or> (\<exists>n. rows_examined d = Some n \<and> n > 10000)
                  \<or> using_filesort d = Some True \<or> using_temp_table d = Some True))
            \<and> (\<exists>t rest. find_all Table e = t # rest \<and> node_name t \<noteq> [])
            \<and> (\<exists>w. args_get e ''where'' = Some w
                  \<and> (\<exists>c \<in> set (find_all Column w). node_name c \<noteq> [])))
         \<and> (\<forall>s \<in> set (optimize_query parse q dyn conn). stype s = ''index_ddl'' \<longrightarrow>
               (\<exists>t rest w. find_all Table e = t # rest \<and> args_get e ''where'' = Some w
                  \<and> ddl s = Some (''CREATE INDEX idx_'' @ node_name t @ ''_composite ON ''
                       @ node_name t @ '' (''
                       @ join '', '' (rev (remdups (rev (filter (\<lambda>n. n \<noteq> [])
                                         (map node_name (find_all Column w))))))
                       @ '');'')))"
proof -
  let ?out = "optimize_query parse q dyn conn"
  let ?idx = "filter (\<lambda>s. stype s = ''index_ddl'') ?out"
  have idx: "?idx = (case table_name e of
              Some t \<Rightarrow> if where_columns e \<noteq> [] \<and> is_slow dyn
                        then [index_suggestion q t (where_columns e)] else []
            | None \<Rightarrow> [])"
    using index_suggestions_of_optimize_query [of parse q e dyn conn] assms by simp
  have tn: "table_name e \<noteq> None \<longleftrightarrow> (\<exists>t rest. find_all Table e = t # rest \<and> node_name t \<noteq> [])"
    by (simp add: table_name_def split: list.splits)
  have wc: "where_columns e \<noteq> [] \<longleftrightarrow>
              (\<exists>w. args_get e ''where'' = Some w
                  \<and> (\<exists>c \<in> set (find_all Column w). node_name c \<noteq> []))"
    by (auto simp: where_columns_eq filter_empty_conv split: option.splits)
  have "(\<exists>s \<in> set ?out. stype s = ''index_ddl'') \<longleftrightarrow> ?idx \<noteq> []"
    by (simp add: filter_empty_conv)
  also have "\<dots> \<longleftrightarrow> is_slow dyn \<and> table_name e \<noteq> None \<and> where_columns e \<noteq> []"
    unfolding idx by (auto split: option.splits)
  finally have iff: "(\<exists>s \<in> set ?out. stype s = ''index_ddl'') \<longleftrightarrow>
      is_slow dyn \<and> table_name e \<noteq> None \<and> where_columns e \<noteq> []" .
  have shape: "\<exists>t rest w. find_all Table e = t # rest \<and> args_get e ''where'' = Some w
                  \<and> ddl s = Some (''CREATE INDEX idx_'' @ node_name t @ ''_composite ON ''
                       @ node_name t @ '' (''
                       @ join '', '' (rev (remdups (rev (filter (\<lambda>n. n \<noteq> [])
                                         (map node_name (find_all Column w))))))
                       @ '');'')"
    if s: "s \<in> set ?out" "stype s = ''index_ddl''" for s
  proof -
    from s have "s \<in> set ?idx" by simp
    then have "\<exists>t. table_name e = Some t \<and> where_columns e \<noteq> []
                 \<and> s = index_suggestion q t (where_columns e)"
      unfolding idx by (cases "table_name e") (auto split: if_splits)
    then obtain t where t: "table_name e = Some t" and nonempty: "where_columns e \<noteq> []"
      and s_eq: "s = index_suggestion q t (where_columns e)"
      by blast
    from t obtain tn rest where tab: "find_all Table e = tn # rest" and nm: "t = node_name tn"
      by (auto simp: table_name_def split: list.splits if_splits)
    from nonempty obtain w where w: "args_get e ''where'' = Some w"
      by (auto simp: where_columns_eq split: option.splits)
    have "ddl s = Some (''CREATE INDEX idx_'' @ node_name tn @ ''_composite ON ''
                       @ node_name tn @ '' (''
                       @ join '', '' (rev (remdups (rev (filter (\<lambda>n. n \<noteq> [])
                                         (map node_name (find_all Column w))))))
                       @ '');'')"
      by (simp add: s_eq index_suggestion_def nm where_columns_eq w)
    with tab w show ?thesis by blast
  qed
  show ?thesis
    unfolding iff is_slow_iff tn wc using shape by blast
qed

theorem index_suggestion_iff_witness:
  "map stype (optimize_query sample_parse (query_of users_or_sql) (Some slow_metrics) None)
     = [''index_ddl'', ''query_rewrite'', ''query_rewrite'']
   \<and> map ddl (optimize_query sample_parse (query_of users_or_sql) (Some slow_metrics) None)
     = [Some ''CREATE INDEX idx_users_composite ON users (id);'', None, None]"
  using index_suggestion_iff [of sample_parse "query_of users_or_sql" users_or_tree
          "Some slow_metrics" None]
  by (simp add: users_or_eval optimize_query_def sample_parse_eval slow_metrics_slow
        index_suggestion_def offset_suggestion_def in_suggestion_def query_of_def)

end
